theory Spec2Isabelle
  imports Complex_Main
begin

section \<open>JavaScript values\<close>

text \<open>
  The plugin's public setters accept any JavaScript value. The values that occur are
  \<open>undefined\<close>, \<open>null\<close>, booleans, numbers and strings. Numbers are modelled as reals
  (NaN and the infinities are outside the model).
\<close>

datatype jsval = Undefined | Null | Bool bool | Num real | Str string

text \<open>Truthiness, as the conditional operator and \<open>if\<close> test it.\<close>

fun truthy :: "jsval \<Rightarrow> bool" where
  "truthy Undefined = False"
| "truthy Null = False"
| "truthy (Bool b) = b"
| "truthy (Num r) = (r \<noteq> 0)"
| "truthy (Str s) = (s \<noteq> [])"

text \<open>
  A default parameter \<open>f(x = d)\<close>: the default is taken exactly when the argument is
  \<open>undefined\<close> (which is also what a missing argument is).
\<close>

definition default_param :: "jsval \<Rightarrow> jsval \<Rightarrow> jsval" where
  "default_param d v = (if v = Undefined then d else v)"

section \<open>The shader helper: colorAdjustment.js\<close>

text \<open>\<open>Array.prototype.push\<close> of one element; the array is returned updated.\<close>

definition push :: "jsval list \<Rightarrow> jsval \<Rightarrow> jsval list" where
  "push src x = src @ [x]"

text \<open>
  \<open>colorAdjustment(src)\<close> mutates the array it is given and returns nothing; the model
  returns the array after the call.
\<close>

definition colorAdjustment :: "jsval list \<Rightarrow> jsval list" where
  "colorAdjustment src0 =
    (let src = push src0 (Str ''uniform vec4 colorParams;'');
         src = push src (Str ''vec4 brightnessSaturationAndConstrast(vec4 color) {'');
         src = push src (Str ''float brightness = colorParams.r;'');
         src = push src (Str ''float saturation = colorParams.g;'');
         src = push src (Str ''float contrast = colorParams.b;'');
         src = push src (Str ''vec3 finalColor = color.rgb * brightness;'');
         src = push src (Str ''float luminance = 0.2125 * color.r + 0.7154 * color.g + 0.0721 * color.b;'');
         src = push src (Str ''vec3 luminanceColor = vec3(luminance);'');
         src = push src (Str ''finalColor = mix(luminanceColor,finalColor,saturation);'');
         src = push src (Str ''vec3 avgColor = vec3(0.5);'');
         src = push src (Str ''finalColor = clamp(mix(avgColor,finalColor,contrast),0.0,1.0);'');
         src = push src (Str ''return vec4(finalColor,color.a);'');
         src = push src (Str ''}'')
     in src)"

text \<open>The text the helper appends, line by line.\<close>

definition colorAdjustment_lines :: "jsval list" where
  "colorAdjustment_lines =
    [Str ''uniform vec4 colorParams;'',
     Str ''vec4 brightnessSaturationAndConstrast(vec4 color) {'',
     Str ''float brightness = colorParams.r;'',
     Str ''float saturation = colorParams.g;'',
     Str ''float contrast = colorParams.b;'',
     Str ''vec3 finalColor = color.rgb * brightness;'',
     Str ''float luminance = 0.2125 * color.r + 0.7154 * color.g + 0.0721 * color.b;'',
     Str ''vec3 luminanceColor = vec3(luminance);'',
     Str ''finalColor = mix(luminanceColor,finalColor,saturation);'',
     Str ''vec3 avgColor = vec3(0.5);'',
     Str ''finalColor = clamp(mix(avgColor,finalColor,contrast),0.0,1.0);'',
     Str ''return vec4(finalColor,color.a);'',
     Str ''}'']"

section \<open>Host operations taken as parameters\<close>

text \<open>
  A 3-element numeric array (\<open>math.vec3()\<close>, a camera's eye, look or up) is a triple of
  numbers. Matrices and bounding boxes are only handed from one engine function to the
  next.
\<close>

type_synonym vec3 = "real \<times> real \<times> real"
type_synonym mat4 = "real list"
type_synonym aabb3 = "real list"

text \<open>
  The plugin imports \<open>math.js\<close> and \<open>CubeTextureCanvas.js\<close>, and applies the
  JavaScript operators \<open>+\<close> and \<open>-\<close> to configuration values of any type (where
  they coerce their operands). These are parameters of the model: whatever they
  compute, the plugin combines them as defined below. A \<open>dest\<close> argument of a
  \<open>math.js\<close> function is a buffer that receives the result, which the function also
  returns; the model keeps the returned value. \<open>getAreaDir\<close> and \<open>getAreaUp\<close> give
  \<open>None\<close> for a falsy result.
\<close>

record host =
  DEGTORAD :: real
  rotationMat4c :: "real \<Rightarrow> real \<Rightarrow> real \<Rightarrow> real \<Rightarrow> mat4"
  subVec3 :: "vec3 \<Rightarrow> vec3 \<Rightarrow> vec3"
  normalizeVec3 :: "vec3 \<Rightarrow> vec3"
  mulVec3Scalar :: "vec3 \<Rightarrow> real \<Rightarrow> vec3"
  transformVec3 :: "mat4 \<Rightarrow> vec3 \<Rightarrow> vec3"
  transformPoint3 :: "mat4 \<Rightarrow> vec3 \<Rightarrow> vec3"
  getAABB3Diag :: "aabb3 \<Rightarrow> real"
  getAABB3Center :: "aabb3 \<Rightarrow> vec3"
  getAreaDir :: "int \<Rightarrow> vec3 option"
  getAreaUp :: "int \<Rightarrow> vec3 option"
  js_plus :: "jsval \<Rightarrow> jsval \<Rightarrow> jsval"
  js_minus :: "jsval \<Rightarrow> jsval \<Rightarrow> jsval"

text \<open>Reading an array element: an index out of range reads \<open>undefined\<close>.\<close>

definition js_index :: "jsval list \<Rightarrow> nat \<Rightarrow> jsval" where
  "js_index xs i = (if i < length xs then xs ! i else Undefined)"

text \<open>The operator \<open>a || b\<close>.\<close>

definition js_or :: "jsval \<Rightarrow> jsval \<Rightarrow> jsval" where
  "js_or a b = (if truthy a then a else b)"

section \<open>The plugin object: NavCubePlugin.js\<close>

text \<open>The pose of a camera, and the NavCube's own camera.\<close>

record camera_pose =
  eye :: vec3
  look :: vec3
  up :: vec3

record navCubeCamera_state = camera_pose +
  ortho_scale :: real
  ortho_near :: real
  ortho_far :: real
  perspective_fov :: jsval
  projection :: jsval

text \<open>
  The fields of the plugin object, with the state of the objects it owns: the two
  meshes' \<open>visible\<close> property, the canvas element's \<open>width\<close> and \<open>height\<close> and its
  style. A field that has not been assigned is \<open>undefined\<close> (for the flag
  \<open>_needUpdateLayout\<close>, which is only tested: false).
\<close>

text \<open>
  Modelled from the spec: the classes \<open>Mesh\<close> and \<open>Plugin\<close> are not among the sources,
  and the canvas element is the browser's. A property of a mesh, of the canvas and of
  its style holds the value last assigned to it, and \<open>this.error(message)\<close> reports the
  message and returns: \<open>errors\<close> is the log of the messages reported, oldest first.
\<close>

record plugin =
  navCubeCamera :: navCubeCamera_state
  zUp :: bool
  needUpdateLayout :: bool
  size_field :: jsval
  alignment :: jsval
  leftMargin :: jsval
  rightMargin :: jsval
  topMargin :: jsval
  bottomMargin :: jsval
  cameraFly :: jsval
  cameraFitFOV :: jsval
  cameraFlyDuration :: jsval
  cubeMesh_visible :: jsval
  shadow_visible :: jsval
  canvas_width :: jsval
  canvas_height :: jsval
  style_width :: jsval
  style_height :: jsval
  style_top :: jsval
  style_left :: jsval
  style_visibility :: jsval
  errors :: "string list"

definition error_log :: "string \<Rightarrow> plugin \<Rightarrow> plugin" where
  "error_log msg p = p\<lparr>errors := errors p @ [msg]\<rparr>"

subsection \<open>Camera synchronisation\<close>

text \<open>
  \<open>_synchCamera\<close>, the handler of the main camera's "matrix" and "worldAxis" events. The
  two calls of \<open>transformVec3\<close> whose results are dropped (they only fill buffers that
  the next two statements fill again) leave no trace.
\<close>

definition synchCamera :: "host \<Rightarrow> camera_pose \<Rightarrow> plugin \<Rightarrow> plugin" where
  "synchCamera h cam p =
    (let matrix = rotationMat4c h (- 90 * DEGTORAD h) 1 0 0;
         eyeLookVec = mulVec3Scalar h (normalizeVec3 h (subVec3 h (eye cam) (look cam))) 5
     in if zUp p
        then p\<lparr>navCubeCamera := (navCubeCamera p)
               \<lparr>look := (0, 0, 0),
                eye := transformVec3 h matrix eyeLookVec,
                up := transformPoint3 h matrix (up cam)\<rparr>\<rparr>
        else p\<lparr>navCubeCamera := (navCubeCamera p)
               \<lparr>look := (0, 0, 0),
                eye := eyeLookVec,
                up := up cam\<rparr>\<rparr>)"

text \<open>The handlers of the perspective's "fov" and the camera's "projection" events.\<close>

definition onCameraFOV :: "jsval \<Rightarrow> plugin \<Rightarrow> plugin" where
  "onCameraFOV fov p = p\<lparr>navCubeCamera := (navCubeCamera p)\<lparr>perspective_fov := fov\<rparr>\<rparr>"

definition onCameraProjection :: "jsval \<Rightarrow> plugin \<Rightarrow> plugin" where
  "onCameraProjection proj p = p\<lparr>navCubeCamera := (navCubeCamera p)\<lparr>projection := proj\<rparr>\<rparr>"

subsection \<open>Layout\<close>

definition px :: "host \<Rightarrow> jsval \<Rightarrow> jsval" where
  "px h v = js_plus h v (Str ''px'')"

text \<open>\<open>_updateLayout\<close>; \<open>boundary\<close> is the main canvas's boundary array.\<close>

definition updateLayout :: "host \<Rightarrow> jsval list \<Rightarrow> plugin \<Rightarrow> plugin" where
  "updateLayout h boundary p0 =
    (let sz = size_field p0;
         p = p0\<lparr>style_width := px h sz\<rparr>;
         p = p\<lparr>style_height := px h sz\<rparr>;
         p = (if alignment p = Str ''bottomRight'' then
                p\<lparr>style_top := px h (js_minus h (js_minus h
                        (js_plus h (js_index boundary 1) (js_index boundary 3)) sz) (bottomMargin p)),
                  style_left := px h (js_minus h (js_minus h
                        (js_plus h (js_index boundary 0) (js_index boundary 2)) sz) (rightMargin p))\<rparr>
              else if alignment p = Str ''bottomLeft'' then
                p\<lparr>style_top := px h (js_minus h (js_minus h
                        (js_plus h (js_index boundary 1) (js_index boundary 3)) sz) (bottomMargin p)),
                  style_left := px h (leftMargin p)\<rparr>
              else if alignment p = Str ''topLeft'' then
                p\<lparr>style_top := px h (topMargin p),
                  style_left := px h (leftMargin p)\<rparr>
              else if alignment p = Str ''topRight'' then
                p\<lparr>style_top := px h (topMargin p),
                  style_left := px h (js_minus h (js_minus h
                        (js_plus h (js_index boundary 0) (js_index boundary 2)) sz) (rightMargin p))\<rparr>
              else p)
     in p\<lparr>needUpdateLayout := False\<rparr>)"

text \<open>The handlers of the main canvas's "boundary" event and of the scene's "tick".\<close>

definition onCanvasBoundary :: "plugin \<Rightarrow> plugin" where
  "onCanvasBoundary p = p\<lparr>needUpdateLayout := True\<rparr>"

definition onSceneTick :: "host \<Rightarrow> jsval list \<Rightarrow> plugin \<Rightarrow> plugin" where
  "onSceneTick h boundary p = (if needUpdateLayout p then updateLayout h boundary p else p)"

subsection \<open>Setters and getters\<close>

definition setVisible :: "jsval \<Rightarrow> plugin \<Rightarrow> plugin" where
  "setVisible visible0 p =
    (let visible = default_param (Bool True) visible0
     in p\<lparr>cubeMesh_visible := visible,
          shadow_visible := visible,
          style_visibility := (if truthy visible then Str ''visible'' else Str ''hidden''),
          needUpdateLayout := True\<rparr>)"

definition getVisible :: "plugin \<Rightarrow> jsval" where
  "getVisible p = cubeMesh_visible p"

definition setSize :: "jsval \<Rightarrow> plugin \<Rightarrow> plugin" where
  "setSize size0 p =
    (let sz = default_param (Num 200) size0
     in p\<lparr>size_field := sz, canvas_width := sz, canvas_height := sz,
          needUpdateLayout := True\<rparr>)"

definition getSize :: "plugin \<Rightarrow> jsval" where
  "getSize p = size_field p"

definition illegal_alignment_message :: string where
  "illegal_alignment_message =
     ''Illegal value for alignment - defaulting to '' @ [CHR 0x60] @ ''bottomRight'' @ [CHR 0x27]"

definition setAlignment :: "jsval \<Rightarrow> plugin \<Rightarrow> plugin" where
  "setAlignment alignment0 p0 =
    (let a = default_param (Str ''bottomRight'') alignment0;
         illegal = (a \<noteq> Str ''bottomRight'' \<and> a \<noteq> Str ''bottomLeft''
                    \<and> a \<noteq> Str ''topLeft'' \<and> a \<noteq> Str ''topRight'');
         p = (if illegal then error_log illegal_alignment_message p0 else p0);
         a = (if illegal then Str ''bottomRight'' else a)
     in p\<lparr>alignment := a, needUpdateLayout := True\<rparr>)"

definition getAlignment :: "plugin \<Rightarrow> jsval" where
  "getAlignment p = alignment p"

definition margin_or_default :: "jsval \<Rightarrow> jsval" where
  "margin_or_default m = (if m \<noteq> Null \<and> m \<noteq> Undefined then m else Num 10)"

definition setLeftMargin :: "jsval \<Rightarrow> plugin \<Rightarrow> plugin" where
  "setLeftMargin leftMargin0 p =
    (let m = default_param (Num 10) leftMargin0
     in p\<lparr>leftMargin := margin_or_default m, needUpdateLayout := True\<rparr>)"

definition getLeftMargin :: "plugin \<Rightarrow> jsval" where
  "getLeftMargin p = leftMargin p"

definition setRightMargin :: "jsval \<Rightarrow> plugin \<Rightarrow> plugin" where
  "setRightMargin rightMargin0 p =
    (let m = default_param (Num 10) rightMargin0
     in p\<lparr>rightMargin := margin_or_default m, needUpdateLayout := True\<rparr>)"

definition getRightMargin :: "plugin \<Rightarrow> jsval" where
  "getRightMargin p = rightMargin p"

definition setTopMargin :: "jsval \<Rightarrow> plugin \<Rightarrow> plugin" where
  "setTopMargin topMargin0 p =
    (let m = default_param (Num 10) topMargin0
     in p\<lparr>topMargin := margin_or_default m, needUpdateLayout := True\<rparr>)"

definition getTopMargin :: "plugin \<Rightarrow> jsval" where
  "getTopMargin p = topMargin p"

definition setBottomMargin :: "jsval \<Rightarrow> plugin \<Rightarrow> plugin" where
  "setBottomMargin bottomMargin0 p =
    (let m = default_param (Num 10) bottomMargin0
     in p\<lparr>bottomMargin := margin_or_default m, needUpdateLayout := True\<rparr>)"

definition getBottomMargin :: "plugin \<Rightarrow> jsval" where
  "getBottomMargin p = bottomMargin p"

definition setCameraFly :: "jsval \<Rightarrow> plugin \<Rightarrow> plugin" where
  "setCameraFly cameraFly0 p = p\<lparr>cameraFly := default_param (Bool True) cameraFly0\<rparr>"

definition getCameraFly :: "plugin \<Rightarrow> jsval" where
  "getCameraFly p = cameraFly p"

definition setCameraFitFOV :: "jsval \<Rightarrow> plugin \<Rightarrow> plugin" where
  "setCameraFitFOV cameraFitFOV0 p = p\<lparr>cameraFitFOV := default_param (Num 45) cameraFitFOV0\<rparr>"

definition getCameraFitFOV :: "plugin \<Rightarrow> jsval" where
  "getCameraFitFOV p = cameraFitFOV p"

definition setCameraFlyDuration :: "jsval \<Rightarrow> plugin \<Rightarrow> plugin" where
  "setCameraFlyDuration cameraFlyDuration0 p =
     p\<lparr>cameraFlyDuration := default_param (Num 0.5) cameraFlyDuration0\<rparr>"

definition getCameraFlyDuration :: "plugin \<Rightarrow> jsval" where
  "getCameraFlyDuration p = cameraFlyDuration p"

subsection \<open>Construction\<close>

text \<open>The configuration object \<open>cfg\<close>; a property that is not given is \<open>undefined\<close>.\<close>

record config =
  cfg_visible :: jsval
  cfg_size :: jsval
  cfg_alignment :: jsval
  cfg_leftMargin :: jsval
  cfg_rightMargin :: jsval
  cfg_topMargin :: jsval
  cfg_bottomMargin :: jsval
  cfg_cameraFly :: jsval
  cfg_cameraFitFOV :: jsval
  cfg_cameraFlyDuration :: jsval

definition empty_config :: config where
  "empty_config =
    \<lparr>cfg_visible = Undefined, cfg_size = Undefined, cfg_alignment = Undefined,
     cfg_leftMargin = Undefined, cfg_rightMargin = Undefined, cfg_topMargin = Undefined,
     cfg_bottomMargin = Undefined, cfg_cameraFly = Undefined, cfg_cameraFitFOV = Undefined,
     cfg_cameraFlyDuration = Undefined\<rparr>"

text \<open>
  The part of the constructor that builds the plugin object: the canvas element and its
  initial style, the NavCube scene's camera (\<open>sceneCamera\<close> is the camera the new scene
  comes with), the two meshes, and the ten setter calls that close the constructor.
\<close>

definition new_NavCubePlugin :: "host \<Rightarrow> navCubeCamera_state \<Rightarrow> config \<Rightarrow> plugin" where
  "new_NavCubePlugin h sceneCamera cfg =
    (let visible = True;
         sz = js_or (cfg_size cfg) (Num 250);
         p = \<lparr>navCubeCamera = sceneCamera\<lparr>ortho_scale := 7, ortho_near := 0.1, ortho_far := 2000\<rparr>,
              zUp = False,
              needUpdateLayout = False,
              size_field = Undefined,
              alignment = Undefined,
              leftMargin = Undefined,
              rightMargin = Undefined,
              topMargin = Undefined,
              bottomMargin = Undefined,
              cameraFly = Undefined,
              cameraFitFOV = Undefined,
              cameraFlyDuration = Undefined,
              cubeMesh_visible = Bool visible,
              shadow_visible = Bool visible,
              canvas_width = Undefined,
              canvas_height = Undefined,
              style_width = px h sz,
              style_height = px h sz,
              style_top = Str ''0px'',
              style_left = Str ''0px'',
              style_visibility = (if visible then Str ''visible'' else Str ''hidden''),
              errors = []\<rparr>;
         p = setVisible (cfg_visible cfg) p;
         p = setSize (cfg_size cfg) p;
         p = setAlignment (cfg_alignment cfg) p;
         p = setLeftMargin (cfg_leftMargin cfg) p;
         p = setRightMargin (cfg_rightMargin cfg) p;
         p = setTopMargin (cfg_topMargin cfg) p;
         p = setBottomMargin (cfg_bottomMargin cfg) p;
         p = setCameraFitFOV (cfg_cameraFitFOV cfg) p;
         p = setCameraFly (cfg_cameraFly cfg) p;
         p = setCameraFlyDuration (cfg_cameraFlyDuration cfg) p
     in p)"

section \<open>Mouse interaction\<close>

subsection \<open>Flying the main camera\<close>

text \<open>
  The parameter object handed to \<open>viewer.cameraFlight\<close>; \<open>duration\<close> is \<open>None\<close> when
  the object has no such property.
\<close>

record flight_params =
  fp_look :: vec3
  fp_eye :: vec3
  fp_up :: vec3
  fp_orthoScale :: real
  fp_fitFOV :: jsval
  fp_duration :: "jsval option"

datatype flight_call = is_FlyTo: FlyTo (params: flight_params) | JumpTo (params: flight_params)

text \<open>
  The closure \<open>flyTo(dir, up, ok)\<close>, as the call it makes on \<open>viewer.cameraFlight\<close>;
  \<open>box\<close> is \<open>viewer.scene.aabb\<close>. The callback \<open>ok\<close> is \<open>onFlightDone\<close> below.
\<close>

definition flyTo :: "host \<Rightarrow> plugin \<Rightarrow> aabb3 \<Rightarrow> vec3 \<Rightarrow> vec3 option \<Rightarrow> flight_call" where
  "flyTo h p box dir upv =
    (let diag = getAABB3Diag h box;
         center = getAABB3Center h box;
         dist = \<bar>diag / tan (55 / 2)\<bar>
     in if truthy (cameraFly p) then
          FlyTo \<lparr>fp_look = center,
                 fp_eye = (fst center - dist * fst dir,
                           fst (snd center) - dist * fst (snd dir),
                           snd (snd center) - dist * snd (snd dir)),
                 fp_up = (case upv of Some u \<Rightarrow> u | None \<Rightarrow> (0, 1, 0)),
                 fp_orthoScale = diag * 1.3,
                 fp_fitFOV = cameraFitFOV p,
                 fp_duration = Some (cameraFlyDuration p)\<rparr>
        else
          JumpTo \<lparr>fp_look = center,
                  fp_eye = (fst center - dist * fst dir,
                            fst (snd center) - dist * fst (snd dir),
                            snd (snd center) - dist * snd (snd dir)),
                  fp_up = (case upv of Some u \<Rightarrow> u | None \<Rightarrow> (0, 1, 0)),
                  fp_orthoScale = diag * 1.3,
                  fp_fitFOV = cameraFitFOV p,
                  fp_duration = None\<rparr>)"

subsection \<open>The state of the mouse handlers\<close>

text \<open>
  A mouse event, and what the pick at the event's position gives: nothing, a hit
  without \<open>uv\<close>, or a hit with \<open>uv\<close>, for which \<open>getArea(hit.uv)\<close> is recorded
  (\<open>None\<close> for \<open>undefined\<close>). The pick depends on the NavCube scene as it is when the
  handler runs, so it is an input of the handler. \<open>getCoordsWithinElement\<close> only
  computes the position that is handed to the pick.
\<close>

record mouse_event =
  ev_x :: real
  ev_y :: real
  ev_clientX :: real
  ev_clientY :: real
  ev_which :: int
  ev_buttons :: int

datatype hit = NoHit | HitNoUV | HitUV "int option"

datatype orbit_call = OrbitYaw "real option" | OrbitPitch "real option"

text \<open>
  The values the variable \<open>pitch\<close> takes: a number, \<open>null\<close> (from \<open>minPitch\<close> and
  \<open>maxPitch\<close>, which are \<open>null\<close> throughout), or not a number.
\<close>

datatype pitch_value = PitchNull | PitchNaN | PitchNum real

text \<open>
  The variables the handlers close over (\<open>downX\<close> and \<open>downY\<close> start as \<open>null\<close>,
  \<open>lastX\<close> and \<open>lastY\<close> as \<open>undefined\<close>: \<open>None\<close>; \<open>yaw\<close> is \<open>None\<close> when it is not
  a number), and what the handlers act on: the cursor style of the document body, the
  set of areas the texture canvas has highlighted, the set of highlighted areas the
  cube's material shows since the last \<open>_repaint\<close>, and the calls made on the main
  camera and on its flight controller, oldest first.
\<close>

record ui =
  lastAreaId :: int
  downX :: "real option"
  downY :: "real option"
  down :: bool
  over :: bool
  yaw :: "real option"
  pitch :: pitch_value
  lastX :: "real option"
  lastY :: "real option"
  cursor :: string
  highlighted :: "int set"
  painted :: "int set"
  flights :: "flight_call list"
  orbits :: "orbit_call list"

definition initial_ui :: ui where
  "initial_ui =
    \<lparr>lastAreaId = - 1, downX = None, downY = None, down = False, over = False,
     yaw = Some 0, pitch = PitchNum 0,
     lastX = None, lastY = None, cursor = [], highlighted = {}, painted = {},
     flights = [], orbits = []\<rparr>"

text \<open>
  Modelled from the spec: \<open>CubeTextureCanvas.js\<close> is not among the sources.
  \<open>setAreaHighlighted(id, flag)\<close> marks area \<open>id\<close> as highlighted or not, and leaves
  the other areas as they are; \<open>_repaint\<close> hands the canvas image to the cube's
  material.
\<close>

definition setAreaHighlighted :: "int \<Rightarrow> bool \<Rightarrow> ui \<Rightarrow> ui" where
  "setAreaHighlighted a flag u =
     u\<lparr>highlighted := (if flag then insert a (highlighted u) else highlighted u - {a})\<rparr>"

definition repaint :: "ui \<Rightarrow> ui" where
  "repaint u = u\<lparr>painted := highlighted u\<rparr>"

text \<open>The statement block that takes the highlight off the area in \<open>lastAreaId\<close>.\<close>

definition unhighlight_last :: "ui \<Rightarrow> ui" where
  "unhighlight_last u =
    (if lastAreaId u \<ge> 0
     then (repaint (setAreaHighlighted (lastAreaId u) False u))\<lparr>lastAreaId := - 1\<rparr>
     else u)"

text \<open>
  \<open>downX\<close> or \<open>downY\<close> as an operand of \<open>-\<close> or \<open>+\<close>: \<open>null\<close> counts as 0.
\<close>

definition null_as_number :: "real option \<Rightarrow> real" where
  "null_as_number v = (case v of None \<Rightarrow> 0 | Some r \<Rightarrow> r)"

text \<open>
  The number a value of \<open>pitch\<close> stands for in a subtraction or a comparison (\<open>null\<close>
  is 0; \<open>None\<close>: not a number), \<open>pitch -= pitchInc\<close>, and the comparison \<open>a < b\<close>,
  which is false when a side is not a number.
\<close>

definition pitch_number :: "pitch_value \<Rightarrow> real option" where
  "pitch_number v = (case v of PitchNull \<Rightarrow> Some 0 | PitchNaN \<Rightarrow> None | PitchNum r \<Rightarrow> Some r)"

definition pitch_minus :: "pitch_value \<Rightarrow> real option \<Rightarrow> pitch_value" where
  "pitch_minus v d =
     (case (pitch_number v, d) of (Some r, Some i) \<Rightarrow> PitchNum (r - i) | _ \<Rightarrow> PitchNaN)"

definition pitch_less :: "pitch_value \<Rightarrow> pitch_value \<Rightarrow> bool" where
  "pitch_less a b =
     (case (pitch_number a, pitch_number b) of (Some x, Some y) \<Rightarrow> x < y | _ \<Rightarrow> False)"

text \<open>
  \<open>actionMove\<close> orbits the main camera by half the distance the pointer has moved since
  \<open>lastX\<close>, \<open>lastY\<close>. While these are \<open>undefined\<close> the differences are not numbers:
  the argument of the orbit call is \<open>None\<close> then. \<open>minPitch\<close> and \<open>maxPitch\<close> are
  \<open>null\<close>, which is not \<open>undefined\<close>, so both clamps are tried.
\<close>

definition actionMove :: "real \<Rightarrow> real \<Rightarrow> ui \<Rightarrow> ui" where
  "actionMove posX posY u0 =
    (let sensitivity = 0.5;
         minPitch = PitchNull;
         maxPitch = PitchNull;
         yawInc = map_option (\<lambda>l. (posX - l) * - sensitivity) (lastX u0);
         pitchInc = map_option (\<lambda>l. (posY - l) * - sensitivity) (lastY u0);
         u = u0\<lparr>yaw := (case (yaw u0, yawInc) of (Some y, Some i) \<Rightarrow> Some (y - i) | _ \<Rightarrow> None)\<rparr>;
         u = u\<lparr>pitch := pitch_minus (pitch u) pitchInc\<rparr>;
         u = (if pitch_less (pitch u) minPitch then u\<lparr>pitch := minPitch\<rparr> else u);
         u = (if pitch_less maxPitch (pitch u) then u\<lparr>pitch := maxPitch\<rparr> else u)
     in u\<lparr>orbits := orbits u @ [OrbitYaw yawInc, OrbitPitch (map_option uminus pitchInc)],
          lastX := Some posX,
          lastY := Some posY\<rparr>)"

subsection \<open>The handlers\<close>

definition onMouseEnter :: "ui \<Rightarrow> ui" where
  "onMouseEnter u = u\<lparr>over := True\<rparr>"

definition onMouseLeave :: "ui \<Rightarrow> ui" where
  "onMouseLeave u = u\<lparr>over := False\<rparr>"

definition onMouseDown :: "mouse_event \<Rightarrow> hit \<Rightarrow> ui \<Rightarrow> ui" where
  "onMouseDown e ht u =
     u\<lparr>downX := Some (ev_x e), downY := Some (ev_y e),
       lastX := Some (ev_clientX e), lastY := Some (ev_clientY e),
       down := (ht \<noteq> NoHit)\<rparr>"

text \<open>
  The test that ends \<open>_onMouseUp\<close> before the camera is moved: the pointer is more than
  3 pixels away from where the button went down, along some axis.
\<close>

definition moved_away :: "mouse_event \<Rightarrow> real option \<Rightarrow> real option \<Rightarrow> bool" where
  "moved_away e dX dY =
    (ev_x e < null_as_number dX - 3 \<or> ev_x e > null_as_number dX + 3
     \<or> ev_y e < null_as_number dY - 3 \<or> ev_y e > null_as_number dY + 3)"

definition onMouseUp :: "host \<Rightarrow> plugin \<Rightarrow> aabb3 \<Rightarrow> mouse_event \<Rightarrow> hit \<Rightarrow> ui \<Rightarrow> ui" where
  "onMouseUp h p box e ht u0 =
    (if ev_which e \<noteq> 1 then u0
     else
       (let u = u0\<lparr>down := False\<rparr>
        in if downX u = None then u
           else
             (case ht of
                HitUV (Some areaId) \<Rightarrow>
                  if areaId \<ge> 0 then
                    (let u = u\<lparr>cursor := ''pointer''\<rparr>;
                         u = unhighlight_last u;
                         u = (if areaId \<ge> 0
                              then repaint ((setAreaHighlighted areaId True u)\<lparr>lastAreaId := areaId\<rparr>)
                              else u)
                     in if areaId \<ge> 0 then
                          (if moved_away e (downX u) (downY u) then u
                           else
                             (case getAreaDir h areaId of
                                Some dir \<Rightarrow>
                                  u\<lparr>flights := flights u @ [flyTo h p box dir (getAreaUp h areaId)]\<rparr>
                              | None \<Rightarrow> u))
                        else u)
                  else u
              | _ \<Rightarrow> u)))"

text \<open>
  The callback \<open>ok\<close> that \<open>_onMouseUp\<close> hands to \<open>flyTo\<close>; \<open>ht\<close> is the pick made
  again at the position of the mouse-up.
\<close>

definition onFlightDone :: "hit \<Rightarrow> ui \<Rightarrow> ui" where
  "onFlightDone ht u0 =
    (let u = unhighlight_last u0
     in case ht of
          HitUV (Some areaId) \<Rightarrow>
            (let u = u\<lparr>cursor := ''pointer''\<rparr>;
                 u = unhighlight_last u
             in if areaId \<ge> 0
                then repaint ((setAreaHighlighted areaId True u)\<lparr>lastAreaId := areaId\<rparr>)
                else u)
        | _ \<Rightarrow> u)"

definition onMouseMove :: "mouse_event \<Rightarrow> hit \<Rightarrow> ui \<Rightarrow> ui" where
  "onMouseMove e ht u0 =
    (let u = unhighlight_last u0
     in if ev_buttons e = 1 \<and> \<not> down u then u
        else if down u then actionMove (ev_clientX e) (ev_clientY e) (u\<lparr>cursor := ''move''\<rparr>)
        else if \<not> over u then u
        else
          (case ht of
             NoHit \<Rightarrow> unhighlight_last (u\<lparr>cursor := ''default''\<rparr>)
           | HitNoUV \<Rightarrow> u
           | HitUV areaId \<Rightarrow>
               (let u = u\<lparr>cursor := ''pointer''\<rparr>
                in if areaId = Some (lastAreaId u) then u
                   else
                     (let u = (if lastAreaId u \<ge> 0
                               then setAreaHighlighted (lastAreaId u) False u else u)
                      in case areaId of
                           Some a \<Rightarrow>
                             if a \<ge> 0
                             then (repaint (setAreaHighlighted a True u))\<lparr>lastAreaId := a\<rparr>
                             else u
                         | None \<Rightarrow> u))))"

subsection \<open>Sequences of events\<close>

text \<open>
  What can run between two points of rest: a mouse handler, or the callback of a
  flight. A mouse-up comes with the plugin's configuration and the scene's bounding box
  as they are at that moment.
\<close>

datatype event =
    MouseEnter
  | MouseLeave
  | MouseDown mouse_event hit
  | MouseUp plugin aabb3 mouse_event hit
  | MouseMove mouse_event hit
  | FlightDone hit

fun handle_event :: "host \<Rightarrow> event \<Rightarrow> ui \<Rightarrow> ui" where
  "handle_event h MouseEnter u = onMouseEnter u"
| "handle_event h MouseLeave u = onMouseLeave u"
| "handle_event h (MouseDown e ht) u = onMouseDown e ht u"
| "handle_event h (MouseUp p box e ht) u = onMouseUp h p box e ht u"
| "handle_event h (MouseMove e ht) u = onMouseMove e ht u"
| "handle_event h (FlightDone ht) u = onFlightDone ht u"

fun run :: "host \<Rightarrow> event list \<Rightarrow> ui \<Rightarrow> ui" where
  "run h [] u = u"
| "run h (ev # evs) u = run h evs (handle_event h ev u)"

section \<open>Event wiring\<close>

text \<open>
  Modelled from the spec: the engine's components (\<open>viewer.camera\<close>, its perspective,
  \<open>viewer.scene\<close> and its canvas) are not among the sources. \<open>on(event, callback)\<close>
  adds a subscription and returns a handle that no other subscription of the component
  has; \<open>off(handle)\<close> removes the subscription with that handle.
\<close>

datatype callback =
    Cb_synchCamera | Cb_cameraFOV | Cb_cameraProjection | Cb_worldAxis
  | Cb_canvasBoundary | Cb_sceneTick
  | Cb_onMouseEnter | Cb_onMouseLeave | Cb_onMouseDown | Cb_onMouseUp | Cb_onMouseMove

record component =
  subs :: "(nat \<times> string \<times> callback) list"
  next_handle :: nat

definition comp_on :: "string \<Rightarrow> callback \<Rightarrow> component \<Rightarrow> nat \<times> component" where
  "comp_on ev cb c =
     (next_handle c,
      c\<lparr>subs := subs c @ [(next_handle c, ev, cb)], next_handle := Suc (next_handle c)\<rparr>)"

definition comp_off :: "nat \<Rightarrow> component \<Rightarrow> component" where
  "comp_off i c = c\<lparr>subs := filter (\<lambda>s. fst s \<noteq> i) (subs c)\<rparr>"

text \<open>
  The listeners of a DOM event target: \<open>addEventListener\<close> adds a listener unless the
  same listener is already there for the event type, \<open>removeEventListener\<close> removes it.
\<close>

definition addEventListener :: "string \<Rightarrow> callback \<Rightarrow> (string \<times> callback) list \<Rightarrow> (string \<times> callback) list" where
  "addEventListener ty cb ls = (if (ty, cb) \<in> set ls then ls else ls @ [(ty, cb)])"

definition removeEventListener :: "string \<Rightarrow> callback \<Rightarrow> (string \<times> callback) list \<Rightarrow> (string \<times> callback) list" where
  "removeEventListener ty cb ls = filter (\<lambda>l. l \<noteq> (ty, cb)) ls"

text \<open>
  The event sources the plugin registers with, and the handles the plugin object keeps
  (\<open>None\<close> before the constructor has stored one). \<open>base_destroyed\<close> records that the
  base class's \<open>destroy\<close> has run.
\<close>

record wiring =
  camera_events :: component
  perspective_events :: component
  scene_events :: component
  canvas_events :: component
  navCubeCanvas_listeners :: "(string \<times> callback) list"
  document_listeners :: "(string \<times> callback) list"
  handle_onCameraMatrix :: "nat option"
  handle_onCameraWorldAxis :: "nat option"
  handle_onCameraFOV :: "nat option"
  handle_onCameraProjection :: "nat option"
  handle_onCanvasBoundary :: "nat option"
  handle_onSceneTick :: "nat option"
  base_destroyed :: bool

text \<open>The registrations the constructor makes, in the order of the source.\<close>

definition constructor_wiring :: "wiring \<Rightarrow> wiring" where
  "constructor_wiring w0 =
    (let (i, c) = comp_on ''matrix'' Cb_synchCamera (camera_events w0);
         w = w0\<lparr>camera_events := c, handle_onCameraMatrix := Some i\<rparr>;
         (i, c) = comp_on ''worldAxis'' Cb_synchCamera (camera_events w);
         w = w\<lparr>camera_events := c, handle_onCameraWorldAxis := Some i\<rparr>;
         (i, c) = comp_on ''fov'' Cb_cameraFOV (perspective_events w);
         w = w\<lparr>perspective_events := c, handle_onCameraFOV := Some i\<rparr>;
         (i, c) = comp_on ''projection'' Cb_cameraProjection (camera_events w);
         w = w\<lparr>camera_events := c, handle_onCameraProjection := Some i\<rparr>;
         (i, c) = comp_on ''worldAxis'' Cb_worldAxis (camera_events w);
         w = w\<lparr>camera_events := c\<rparr>;
         w = w\<lparr>navCubeCanvas_listeners :=
                 addEventListener ''mouseenter'' Cb_onMouseEnter (navCubeCanvas_listeners w)\<rparr>;
         w = w\<lparr>navCubeCanvas_listeners :=
                 addEventListener ''mouseleave'' Cb_onMouseLeave (navCubeCanvas_listeners w)\<rparr>;
         w = w\<lparr>navCubeCanvas_listeners :=
                 addEventListener ''mousedown'' Cb_onMouseDown (navCubeCanvas_listeners w)\<rparr>;
         w = w\<lparr>document_listeners :=
                 addEventListener ''mouseup'' Cb_onMouseUp (document_listeners w)\<rparr>;
         w = w\<lparr>document_listeners :=
                 addEventListener ''mousemove'' Cb_onMouseMove (document_listeners w)\<rparr>;
         (i, c) = comp_on ''boundary'' Cb_canvasBoundary (canvas_events w);
         w = w\<lparr>canvas_events := c, handle_onCanvasBoundary := Some i\<rparr>;
         (i, c) = comp_on ''tick'' Cb_sceneTick (scene_events w);
         w = w\<lparr>scene_events := c, handle_onSceneTick := Some i\<rparr>
     in w)"

text \<open>\<open>off\<close> with the value of a handle field; a field never assigned removes nothing.\<close>

definition off_field :: "nat option \<Rightarrow> component \<Rightarrow> component" where
  "off_field field c = (case field of Some i \<Rightarrow> comp_off i c | None \<Rightarrow> c)"

definition destroy :: "wiring \<Rightarrow> wiring" where
  "destroy w0 =
    (let w = w0\<lparr>canvas_events := off_field (handle_onCanvasBoundary w0) (canvas_events w0)\<rparr>;
         w = w\<lparr>scene_events := off_field (handle_onSceneTick w) (scene_events w)\<rparr>;
         w = w\<lparr>camera_events := off_field (handle_onCameraMatrix w) (camera_events w)\<rparr>;
         w = w\<lparr>camera_events := off_field (handle_onCameraWorldAxis w) (camera_events w)\<rparr>;
         w = w\<lparr>perspective_events := off_field (handle_onCameraFOV w) (perspective_events w)\<rparr>;
         w = w\<lparr>camera_events := off_field (handle_onCameraProjection w) (camera_events w)\<rparr>;
         w = w\<lparr>navCubeCanvas_listeners :=
                 removeEventListener ''mouseenter'' Cb_onMouseEnter (navCubeCanvas_listeners w)\<rparr>;
         w = w\<lparr>navCubeCanvas_listeners :=
                 removeEventListener ''mouseleave'' Cb_onMouseLeave (navCubeCanvas_listeners w)\<rparr>;
         w = w\<lparr>navCubeCanvas_listeners :=
                 removeEventListener ''mousedown'' Cb_onMouseDown (navCubeCanvas_listeners w)\<rparr>;
         w = w\<lparr>document_listeners :=
                 removeEventListener ''mousemove'' Cb_onMouseMove (document_listeners w)\<rparr>;
         w = w\<lparr>document_listeners :=
                 removeEventListener ''mouseup'' Cb_onMouseUp (document_listeners w)\<rparr>
     in w\<lparr>base_destroyed := True\<rparr>)"

text \<open>A viewer on which nothing is registered yet.\<close>

definition fresh_wiring :: wiring where
  "fresh_wiring =
    \<lparr>camera_events = \<lparr>subs = [], next_handle = 0\<rparr>,
     perspective_events = \<lparr>subs = [], next_handle = 0\<rparr>,
     scene_events = \<lparr>subs = [], next_handle = 0\<rparr>,
     canvas_events = \<lparr>subs = [], next_handle = 0\<rparr>,
     navCubeCanvas_listeners = [],
     document_listeners = [],
     handle_onCameraMatrix = None,
     handle_onCameraWorldAxis = None,
     handle_onCameraFOV = None,
     handle_onCameraProjection = None,
     handle_onCanvasBoundary = None,
     handle_onSceneTick = None,
     base_destroyed = False\<rparr>"

section \<open>A host to run the definitions on\<close>

text \<open>
  One instance of the parameters, for evaluating the plugin on concrete inputs: vectors
  are handled componentwise, a matrix is a column-major list of 16 numbers, the two
  operators add, subtract and concatenate numbers and strings (a whole number in front
  of a string is written in decimal; other operands are not covered and give
  \<open>undefined\<close>), and the cube has the six faces 0 to 5.
\<close>

fun decimal :: "nat \<Rightarrow> string" where
  "decimal n =
     (if n < 10 then [''0123456789'' ! n]
      else decimal (n div 10) @ [''0123456789'' ! (n mod 10)])"

declare decimal.simps [simp del]

definition sample_plus :: "jsval \<Rightarrow> jsval \<Rightarrow> jsval" where
  "sample_plus a b =
    (case (a, b) of
       (Num x, Num y) \<Rightarrow> Num (x + y)
     | (Str s, Str t) \<Rightarrow> Str (s @ t)
     | (Num x, Str t) \<Rightarrow>
         (if 0 \<le> x \<and> x = of_int \<lfloor>x\<rfloor> then Str (decimal (nat \<lfloor>x\<rfloor>) @ t) else Undefined)
     | _ \<Rightarrow> Undefined)"

definition sample_minus :: "jsval \<Rightarrow> jsval \<Rightarrow> jsval" where
  "sample_minus a b = (case (a, b) of (Num x, Num y) \<Rightarrow> Num (x - y) | _ \<Rightarrow> Undefined)"

definition sample_rotation :: "real \<Rightarrow> real \<Rightarrow> real \<Rightarrow> real \<Rightarrow> mat4" where
  "sample_rotation a x y z =
    (let c = cos a; s = sin a; q = 1 - c
     in [x * x * q + c, x * y * q + z * s, x * z * q - y * s, 0,
         x * y * q - z * s, y * y * q + c, y * z * q + x * s, 0,
         x * z * q + y * s, y * z * q - x * s, z * z * q + c, 0,
         0, 0, 0, 1])"

definition sample_transform :: "bool \<Rightarrow> mat4 \<Rightarrow> vec3 \<Rightarrow> vec3" where
  "sample_transform translate m v =
    (let x = fst v; y = fst (snd v); z = snd (snd v); t = (if translate then 1 else 0)
     in (m ! 0 * x + m ! 4 * y + m ! 8 * z + t * m ! 12,
         m ! 1 * x + m ! 5 * y + m ! 9 * z + t * m ! 13,
         m ! 2 * x + m ! 6 * y + m ! 10 * z + t * m ! 14))"

definition sample_face_dir :: "int \<Rightarrow> vec3 option" where
  "sample_face_dir a =
    (if a = 0 then Some (0, 0, - 1) else if a = 1 then Some (0, 0, 1)
     else if a = 2 then Some (- 1, 0, 0) else if a = 3 then Some (1, 0, 0)
     else if a = 4 then Some (0, - 1, 0) else if a = 5 then Some (0, 1, 0)
     else None)"

definition sample_face_up :: "int \<Rightarrow> vec3 option" where
  "sample_face_up a =
    (if a = 4 then Some (0, 0, 1) else if a = 5 then Some (0, 0, - 1) else None)"

definition sample_host :: host where
  "sample_host =
    \<lparr>DEGTORAD = pi / 180,
     rotationMat4c = sample_rotation,
     subVec3 = (\<lambda>u v. (fst u - fst v, fst (snd u) - fst (snd v), snd (snd u) - snd (snd v))),
     normalizeVec3 =
       (\<lambda>v. (let l = sqrt (fst v * fst v + fst (snd v) * fst (snd v) + snd (snd v) * snd (snd v))
             in (fst v / l, fst (snd v) / l, snd (snd v) / l))),
     mulVec3Scalar = (\<lambda>v s. (fst v * s, fst (snd v) * s, snd (snd v) * s)),
     transformVec3 = sample_transform False,
     transformPoint3 = sample_transform True,
     getAABB3Diag =
       (\<lambda>b. sqrt ((b ! 3 - b ! 0) * (b ! 3 - b ! 0) + (b ! 4 - b ! 1) * (b ! 4 - b ! 1)
                   + (b ! 5 - b ! 2) * (b ! 5 - b ! 2))),
     getAABB3Center = (\<lambda>b. ((b ! 0 + b ! 3) / 2, (b ! 1 + b ! 4) / 2, (b ! 2 + b ! 5) / 2)),
     getAreaDir = sample_face_dir,
     getAreaUp = sample_face_up,
     js_plus = sample_plus,
     js_minus = sample_minus\<rparr>"

definition sample_camera :: navCubeCamera_state where
  "sample_camera =
    \<lparr>eye = (0, 0, 10), look = (0, 0, 0), up = (0, 1, 0),
     ortho_scale = 1, ortho_near = 0.1, ortho_far = 10000,
     perspective_fov = Num 60, projection = Str ''perspective''\<rparr>"

text \<open>The plugin as constructed with an empty configuration object.\<close>

definition sample_plugin :: plugin where
  "sample_plugin = new_NavCubePlugin sample_host sample_camera empty_config"

definition sample_boundary :: "jsval list" where
  "sample_boundary = [Num 0, Num 0, Num 1000, Num 800]"

definition sample_event :: "real \<Rightarrow> real \<Rightarrow> mouse_event" where
  "sample_event x y =
     \<lparr>ev_x = x, ev_y = y, ev_clientX = x, ev_clientY = y, ev_which = 1, ev_buttons = 0\<rparr>"

definition sample_pose :: camera_pose where
  "sample_pose = \<lparr>eye = (0, 0, 1), look = (0, 0, 0), up = (0, 1, 0)\<rparr>"

definition sample_box :: aabb3 where
  "sample_box = [0, 0, 0, 2, 4, 6]"

text \<open>The state after the button went down at (100, 100) on the cube.\<close>

definition pressed :: ui where
  "pressed = onMouseDown (sample_event 100 100) (HitUV (Some 2)) initial_ui"

text \<open>The pointer enters the canvas and moves over area 3, then over area 4.\<close>

definition sample_moves :: "event list" where
  "sample_moves =
    [MouseEnter, MouseMove (sample_event 50 50) (HitUV (Some 3)),
     MouseMove (sample_event 60 50) (HitUV (Some 4))]"

section \<open>The notions the properties are stated with\<close>

text \<open>The alignment values the documentation of \<open>setAlignment\<close> lists as accepted.\<close>

definition valid_alignments :: "string set" where
  "valid_alignments = {''bottomRight'', ''bottomLeft'', ''topLeft'', ''topRight''}"

text \<open>
  The two layout formulas for a NavCube at the bottom and at the right of the main
  canvas: \<open>boundary[1] + boundary[3] - size - bottomMargin\<close> and
  \<open>boundary[0] + boundary[2] - size - rightMargin\<close>, in pixels.
\<close>

definition layout_top_at_bottom :: "host \<Rightarrow> jsval list \<Rightarrow> plugin \<Rightarrow> jsval" where
  "layout_top_at_bottom h boundary p =
     px h (js_minus h (js_minus h (js_plus h (js_index boundary 1) (js_index boundary 3))
             (size_field p)) (bottomMargin p))"

definition layout_left_at_right :: "host \<Rightarrow> jsval list \<Rightarrow> plugin \<Rightarrow> jsval" where
  "layout_left_at_right h boundary p =
     px h (js_minus h (js_minus h (js_plus h (js_index boundary 0) (js_index boundary 2))
             (size_field p)) (rightMargin p))"

text \<open>The distance of the eye from the centre of the scene: \<open>|diag / tan(55 / 2)|\<close>.\<close>

definition flight_distance :: "host \<Rightarrow> aabb3 \<Rightarrow> real" where
  "flight_distance h box = \<bar>getAABB3Diag h box / tan (55 / 2)\<bar>"

text \<open>
  The highlight discipline: the highlighted areas are exactly the area in
  \<open>lastAreaId\<close>, or none when \<open>lastAreaId\<close> is -1, and the cube's material shows just
  that.
\<close>

definition highlight_inv :: "ui \<Rightarrow> bool" where
  "highlight_inv u =
    ((if lastAreaId u \<ge> 0 then highlighted u = {lastAreaId u}
      else lastAreaId u = - 1 \<and> highlighted u = {})
     \<and> painted u = highlighted u)"

section \<open>Evaluation\<close>

text \<open>
  Congruence rules that make the simplifier evaluate the bound term of a \<open>let\<close> and the
  scrutinee of a \<open>case\<close> before it looks at the body.
\<close>

lemmas by_value = let_weak_cong prod.case_cong_weak option.case_cong_weak

lemmas setter_defs = setVisible_def setSize_def setAlignment_def setLeftMargin_def setRightMargin_def
  setTopMargin_def setBottomMargin_def setCameraFly_def setCameraFitFOV_def setCameraFlyDuration_def
  getVisible_def getSize_def getAlignment_def getLeftMargin_def getRightMargin_def getTopMargin_def
  getBottomMargin_def getCameraFly_def getCameraFitFOV_def getCameraFlyDuration_def
  default_param_def margin_or_default_def error_log_def

lemmas ui_defs = unhighlight_last_def setAreaHighlighted_def repaint_def

lemmas handler_defs = onMouseEnter_def onMouseLeave_def onMouseDown_def onMouseMove_def
  onFlightDone_def actionMove_def unhighlight_last_def setAreaHighlighted_def repaint_def

lemma sample_host_sel:
  "js_plus sample_host = sample_plus" "js_minus sample_host = sample_minus"
  "getAreaDir sample_host = sample_face_dir" "getAreaUp sample_host = sample_face_up"
  "DEGTORAD sample_host = pi / 180" "rotationMat4c sample_host = sample_rotation"
  "transformVec3 sample_host = sample_transform False"
  "transformPoint3 sample_host = sample_transform True"
  by (simp_all add: sample_host_def)

lemma sample_px:
  "px sample_host (Num 10) = Str ''10px''" "px sample_host (Num 200) = Str ''200px''"
  "px sample_host (Num 590) = Str ''590px''" "px sample_host (Num 790) = Str ''790px''"
  by (simp_all add: px_def sample_host_sel sample_plus_def decimal.simps)

text \<open>The plugin a constructor call with an empty configuration object gives.\<close>

lemma sample_plugin_eq:
  "sample_plugin =
    \<lparr>navCubeCamera = \<lparr>eye = (0, 0, 10), look = (0, 0, 0), up = (0, 1, 0),
        ortho_scale = 7, ortho_near = 0.1, ortho_far = 2000,
        perspective_fov = Num 60, projection = Str ''perspective''\<rparr>,
     zUp = False,
     needUpdateLayout = True,
     size_field = Num 200,
     alignment = Str ''bottomRight'',
     leftMargin = Num 10,
     rightMargin = Num 10,
     topMargin = Num 10,
     bottomMargin = Num 10,
     cameraFly = Bool True,
     cameraFitFOV = Num 45,
     cameraFlyDuration = Num 0.5,
     cubeMesh_visible = Bool True,
     shadow_visible = Bool True,
     canvas_width = Num 200,
     canvas_height = Num 200,
     style_width = Str ''250px'',
     style_height = Str ''250px'',
     style_top = Str ''0px'',
     style_left = Str ''0px'',
     style_visibility = Str ''visible'',
     errors = []\<rparr>"
  by (simp add: sample_plugin_def new_NavCubePlugin_def setter_defs empty_config_def sample_host_def
      sample_camera_def js_or_def px_def sample_plus_def decimal.simps Let_def cong: by_value)

lemma sample_plugin_fly:
  "cameraFly sample_plugin = Bool True" "cameraFlyDuration sample_plugin = Num 0.5"
  "cameraFitFOV sample_plugin = Num 45"
  by (simp_all add: sample_plugin_eq)

lemma sample_dirs:
  "getAreaDir sample_host 2 = Some (- 1, 0, 0)" "getAreaUp sample_host 2 = None"
  by (simp_all add: sample_host_sel sample_face_dir_def sample_face_up_def)

lemma pressed_eq:
  "pressed = initial_ui\<lparr>downX := Some 100, downY := Some 100, lastX := Some 100,
      lastY := Some 100, down := True\<rparr>"
  by (simp add: pressed_def onMouseDown_def sample_event_def)

lemma pressed_fields:
  "downX pressed = Some 100" "downY pressed = Some 100" "flights pressed = []"
  "lastAreaId pressed = - 1" "highlighted pressed = {}" "orbits pressed = []"
  by (simp_all add: pressed_eq initial_ui_def)

lemma sample_moved:
  "\<not> moved_away (sample_event 102 99) (Some 100) (Some 100)"
  "moved_away (sample_event 110 100) (Some 100) (Some 100)"
  by (simp_all add: moved_away_def sample_event_def null_as_number_def)

section \<open>Properties of the shader helper\<close>


lemma colorAdjustment_append: "colorAdjustment src = src @ colorAdjustment_lines"
  by (simp add: colorAdjustment_def colorAdjustment_lines_def push_def)

lemma length_colorAdjustment_lines: "length colorAdjustment_lines = 13"
  by (simp add: colorAdjustment_lines_def)

text \<open>
  C2, as stated, fails: the helper appends 13 strings, not 14. On the empty array the
  result has 13 elements.
\<close>

theorem C2_fourteen_strings_counterexample:
  "length (colorAdjustment []) \<noteq> length ([] :: jsval list) + 14"
  by (simp add: colorAdjustment_append length_colorAdjustment_lines)

text \<open>
  C2, amended: for every input array \<open>src\<close>, \<open>colorAdjustment\<close> appends exactly 13 fixed
  strings (the uniform declaration followed by the function
  \<open>brightnessSaturationAndConstrast\<close>) to the end of \<open>src\<close>; the elements already in
  \<open>src\<close> stay unchanged and in place; the appended text does not depend on \<open>src\<close>.
\<close>

theorem C2_colorAdjustment_appends_thirteen:
  "colorAdjustment src = src @ colorAdjustment_lines
   \<and> length colorAdjustment_lines = 13
   \<and> length (colorAdjustment src) = length src + 13
   \<and> take (length src) (colorAdjustment src) = src
   \<and> drop (length src) (colorAdjustment src) = drop (length src') (colorAdjustment src')"
  by (simp add: colorAdjustment_append length_colorAdjustment_lines)


section \<open>Properties of the setters and getters\<close>

text \<open>
  C3: for every string \<open>a\<close> that is not one of "bottomRight", "bottomLeft", "topLeft",
  "topRight", \<open>setAlignment(a)\<close> reports an error and \<open>getAlignment()\<close> then returns
  "bottomRight"; for every \<open>a\<close> among the four, \<open>setAlignment(a)\<close> stores it without
  an error and \<open>getAlignment()\<close> returns \<open>a\<close>.
\<close>

theorem C3_setAlignment_validates:
  "(a \<notin> valid_alignments \<longrightarrow>
      getAlignment (setAlignment (Str a) p) = Str ''bottomRight''
      \<and> errors (setAlignment (Str a) p) = errors p @ [illegal_alignment_message])
   \<and> (a \<in> valid_alignments \<longrightarrow>
      getAlignment (setAlignment (Str a) p) = Str a
      \<and> errors (setAlignment (Str a) p) = errors p)"
  by (auto simp: setter_defs valid_alignments_def Let_def)

theorem C3_setAlignment_validates_witness:
  "''middle'' \<notin> valid_alignments
   \<and> getAlignment (setAlignment (Str ''middle'') sample_plugin) = Str ''bottomRight''
   \<and> errors (setAlignment (Str ''middle'') sample_plugin) = [illegal_alignment_message]
   \<and> ''topLeft'' \<in> valid_alignments
   \<and> getAlignment (setAlignment (Str ''topLeft'') sample_plugin) = Str ''topLeft''
   \<and> errors (setAlignment (Str ''topLeft'') sample_plugin) = []"
  using C3_setAlignment_validates [of "''middle''" sample_plugin]
    C3_setAlignment_validates [of "''topLeft''" sample_plugin]
  by (simp add: valid_alignments_def sample_plugin_eq)

text \<open>
  C4: for every number \<open>s\<close>, \<open>setSize(s)\<close> and then \<open>getSize()\<close> returns \<open>s\<close>;
  \<open>setSize\<close> without an argument stores the default 200; and setting and then getting
  returns what was set for the other pairs as well: visible (a boolean), alignment (one
  of the four accepted values), each of the four margins, cameraFly (a boolean),
  cameraFitFOV and cameraFlyDuration.
\<close>

theorem C4_set_then_get:
  "getSize (setSize (Num s) p) = Num s
   \<and> getSize (setSize Undefined p) = Num 200
   \<and> getVisible (setVisible (Bool b) p) = Bool b
   \<and> (a \<in> valid_alignments \<longrightarrow> getAlignment (setAlignment (Str a) p) = Str a)
   \<and> getLeftMargin (setLeftMargin (Num m) p) = Num m
   \<and> getRightMargin (setRightMargin (Num m) p) = Num m
   \<and> getTopMargin (setTopMargin (Num m) p) = Num m
   \<and> getBottomMargin (setBottomMargin (Num m) p) = Num m
   \<and> getCameraFly (setCameraFly (Bool b) p) = Bool b
   \<and> getCameraFitFOV (setCameraFitFOV (Num s) p) = Num s
   \<and> getCameraFlyDuration (setCameraFlyDuration (Num s) p) = Num s"
  by (auto simp: setter_defs valid_alignments_def Let_def)

theorem C4_set_then_get_witness:
  "getSize (setSize (Num 300) sample_plugin) = Num 300
   \<and> getSize (setSize Undefined sample_plugin) = Num 200
   \<and> ''topRight'' \<in> valid_alignments
   \<and> getAlignment (setAlignment (Str ''topRight'') sample_plugin) = Str ''topRight''
   \<and> getVisible (setVisible (Bool False) sample_plugin) = Bool False
   \<and> getTopMargin (setTopMargin (Num 170) sample_plugin) = Num 170"
  using C4_set_then_get [of 300 sample_plugin False "''topRight''" 170]
  by (simp add: valid_alignments_def)

text \<open>
  C7, as stated, fails: \<open>setSize(undefined)\<close> does not store \<open>undefined\<close>; the default
  parameter makes it store 200. The constructor makes this very call when the
  configuration object has no \<open>size\<close>.
\<close>

theorem C7_setSize_undefined_counterexample:
  "size_field (setSize Undefined sample_plugin) = Num 200
   \<and> size_field (setSize Undefined sample_plugin) \<noteq> Undefined"
  by (simp add: setter_defs Let_def)

text \<open>
  C7, amended: no public setter other than \<open>setAlignment\<close> signals an error, whatever
  its argument; for every value \<open>v\<close> other than \<open>undefined\<close> (negative and non-numeric
  values included), \<open>setSize(v)\<close>, \<open>setCameraFitFOV(v)\<close>, \<open>setCameraFlyDuration(v)\<close>
  and \<open>setCameraFly(v)\<close> store \<open>v\<close> unchanged; for \<open>undefined\<close> they store their
  default parameters 200, 45, 0.5 and true; and the margin setters store \<open>v\<close> unchanged
  for every \<open>v\<close> other than \<open>null\<close> and \<open>undefined\<close>.
\<close>

theorem C7_setters_store_without_validation:
  "(v \<noteq> Undefined \<longrightarrow>
      size_field (setSize v p) = v \<and> cameraFitFOV (setCameraFitFOV v p) = v
      \<and> cameraFlyDuration (setCameraFlyDuration v p) = v \<and> cameraFly (setCameraFly v p) = v)
   \<and> size_field (setSize Undefined p) = Num 200
   \<and> cameraFitFOV (setCameraFitFOV Undefined p) = Num 45
   \<and> cameraFlyDuration (setCameraFlyDuration Undefined p) = Num 0.5
   \<and> cameraFly (setCameraFly Undefined p) = Bool True
   \<and> (v \<noteq> Undefined \<and> v \<noteq> Null \<longrightarrow>
      leftMargin (setLeftMargin v p) = v \<and> rightMargin (setRightMargin v p) = v
      \<and> topMargin (setTopMargin v p) = v \<and> bottomMargin (setBottomMargin v p) = v)
   \<and> errors (setSize v p) = errors p
   \<and> errors (setCameraFitFOV v p) = errors p
   \<and> errors (setCameraFlyDuration v p) = errors p
   \<and> errors (setCameraFly v p) = errors p
   \<and> errors (setLeftMargin v p) = errors p
   \<and> errors (setRightMargin v p) = errors p
   \<and> errors (setTopMargin v p) = errors p
   \<and> errors (setBottomMargin v p) = errors p
   \<and> errors (setVisible v p) = errors p"
  by (auto simp: setter_defs Let_def)

theorem C7_setters_store_without_validation_witness:
  "Num (- 5) \<noteq> Undefined \<and> Num (- 5) \<noteq> Null
   \<and> size_field (setSize (Num (- 5)) sample_plugin) = Num (- 5)
   \<and> leftMargin (setLeftMargin (Num (- 5)) sample_plugin) = Num (- 5)
   \<and> errors (setSize (Num (- 5)) sample_plugin) = []
   \<and> Str ''wide'' \<noteq> Undefined \<and> Str ''wide'' \<noteq> Null
   \<and> size_field (setSize (Str ''wide'') sample_plugin) = Str ''wide''
   \<and> cameraFly (setCameraFly (Str ''wide'') sample_plugin) = Str ''wide''
   \<and> bottomMargin (setBottomMargin (Str ''wide'') sample_plugin) = Str ''wide''
   \<and> errors (setBottomMargin (Str ''wide'') sample_plugin) = []
   \<and> size_field (setSize Undefined (setSize (Num 300) sample_plugin)) = Num 200
   \<and> cameraFitFOV (setCameraFitFOV Undefined (setCameraFitFOV (Num 60) sample_plugin)) = Num 45
   \<and> cameraFlyDuration (setCameraFlyDuration Undefined (setCameraFlyDuration (Num 2) sample_plugin))
       = Num 0.5
   \<and> cameraFly (setCameraFly Undefined (setCameraFly (Bool False) sample_plugin)) = Bool True"
  using C7_setters_store_without_validation [of "Num (- 5)" sample_plugin]
    C7_setters_store_without_validation [of Undefined "setSize (Num 300) sample_plugin"]
    C7_setters_store_without_validation [of Undefined "setCameraFitFOV (Num 60) sample_plugin"]
    C7_setters_store_without_validation [of Undefined "setCameraFlyDuration (Num 2) sample_plugin"]
    C7_setters_store_without_validation [of Undefined "setCameraFly (Bool False) sample_plugin"]
    C7_setters_store_without_validation [of "Str ''wide''" sample_plugin]
  by (simp add: sample_plugin_eq)

section \<open>Properties of the layout\<close>

lemma updateLayout_flag: "needUpdateLayout (updateLayout h b p) = False"
  by (simp add: updateLayout_def Let_def)

lemma tick_twice: "onSceneTick h b' (onSceneTick h b p) = onSceneTick h b p"
  by (simp add: onSceneTick_def updateLayout_flag)

lemma setters_flag:
  "needUpdateLayout (setVisible v p)" "needUpdateLayout (setSize v p)"
  "needUpdateLayout (setAlignment v p)" "needUpdateLayout (setLeftMargin v p)"
  "needUpdateLayout (setRightMargin v p)" "needUpdateLayout (setTopMargin v p)"
  "needUpdateLayout (setBottomMargin v p)" "needUpdateLayout (onCanvasBoundary p)"
  by (simp_all add: setter_defs onCanvasBoundary_def Let_def)

lemma updateLayout_size:
  "style_width (updateLayout h b p) = px h (size_field p)"
  "style_height (updateLayout h b p) = px h (size_field p)"
  by (simp_all add: updateLayout_def Let_def)

lemma updateLayout_pos:
  "alignment p = Str ''topLeft'' \<Longrightarrow> style_top (updateLayout h b p) = px h (topMargin p)"
  "alignment p = Str ''topLeft'' \<Longrightarrow> style_left (updateLayout h b p) = px h (leftMargin p)"
  "alignment p = Str ''topRight'' \<Longrightarrow> style_top (updateLayout h b p) = px h (topMargin p)"
  "alignment p = Str ''topRight'' \<Longrightarrow> style_left (updateLayout h b p) = layout_left_at_right h b p"
  "alignment p = Str ''bottomLeft'' \<Longrightarrow> style_top (updateLayout h b p) = layout_top_at_bottom h b p"
  "alignment p = Str ''bottomLeft'' \<Longrightarrow> style_left (updateLayout h b p) = px h (leftMargin p)"
  "alignment p = Str ''bottomRight'' \<Longrightarrow> style_top (updateLayout h b p) = layout_top_at_bottom h b p"
  "alignment p = Str ''bottomRight'' \<Longrightarrow> style_left (updateLayout h b p) = layout_left_at_right h b p"
  by (simp_all add: updateLayout_def layout_top_at_bottom_def layout_left_at_right_def Let_def)

lemma sample_layout:
  "layout_top_at_bottom sample_host sample_boundary sample_plugin = Str ''590px''"
  "layout_left_at_right sample_host sample_boundary sample_plugin = Str ''790px''"
  unfolding layout_top_at_bottom_def layout_left_at_right_def sample_plugin_eq sample_boundary_def
  by (simp_all add: js_index_def sample_host_sel sample_plus_def sample_minus_def sample_px)

text \<open>
  C6: a scene tick recomputes the layout if and only if the flag \<open>_needUpdateLayout\<close>
  is set; every visual setter and the canvas's boundary event set the flag and the
  recomputation clears it, so a second tick with nothing in between changes nothing; the
  recomputation sets the style's width and height to \<open>size\<close> pixels and positions the
  canvas by the alignment: "topLeft" at top = topMargin, left = leftMargin; "topRight" at
  top = topMargin, left = boundary[0] + boundary[2] - size - rightMargin; "bottomLeft" at
  top = boundary[1] + boundary[3] - size - bottomMargin, left = leftMargin; "bottomRight"
  at that top and the left of "topRight".
\<close>

theorem C6_layout_on_tick:
  "(needUpdateLayout p \<longrightarrow> onSceneTick h b p = updateLayout h b p)
   \<and> (\<not> needUpdateLayout p \<longrightarrow> onSceneTick h b p = p)
   \<and> needUpdateLayout (setVisible v p) \<and> needUpdateLayout (setSize v p)
   \<and> needUpdateLayout (setAlignment v p) \<and> needUpdateLayout (setLeftMargin v p)
   \<and> needUpdateLayout (setRightMargin v p) \<and> needUpdateLayout (setTopMargin v p)
   \<and> needUpdateLayout (setBottomMargin v p) \<and> needUpdateLayout (onCanvasBoundary p)
   \<and> \<not> needUpdateLayout (updateLayout h b p)
   \<and> onSceneTick h b' (onSceneTick h b p) = onSceneTick h b p
   \<and> style_width (updateLayout h b p) = px h (size_field p)
   \<and> style_height (updateLayout h b p) = px h (size_field p)
   \<and> (alignment p = Str ''topLeft'' \<longrightarrow>
        style_top (updateLayout h b p) = px h (topMargin p)
        \<and> style_left (updateLayout h b p) = px h (leftMargin p))
   \<and> (alignment p = Str ''topRight'' \<longrightarrow>
        style_top (updateLayout h b p) = px h (topMargin p)
        \<and> style_left (updateLayout h b p) = layout_left_at_right h b p)
   \<and> (alignment p = Str ''bottomLeft'' \<longrightarrow>
        style_top (updateLayout h b p) = layout_top_at_bottom h b p
        \<and> style_left (updateLayout h b p) = px h (leftMargin p))
   \<and> (alignment p = Str ''bottomRight'' \<longrightarrow>
        style_top (updateLayout h b p) = layout_top_at_bottom h b p
        \<and> style_left (updateLayout h b p) = layout_left_at_right h b p)"
  by (simp add: setters_flag updateLayout_flag tick_twice updateLayout_size updateLayout_pos onSceneTick_def)

theorem C6_layout_on_tick_witness:
  "needUpdateLayout sample_plugin
   \<and> onSceneTick sample_host sample_boundary sample_plugin
       = updateLayout sample_host sample_boundary sample_plugin
   \<and> \<not> needUpdateLayout (updateLayout sample_host sample_boundary sample_plugin)
   \<and> onSceneTick sample_host sample_boundary (onSceneTick sample_host sample_boundary sample_plugin)
       = onSceneTick sample_host sample_boundary sample_plugin
   \<and> alignment sample_plugin = Str ''bottomRight''
   \<and> style_width (updateLayout sample_host sample_boundary sample_plugin) = Str ''200px''
   \<and> style_top (updateLayout sample_host sample_boundary sample_plugin) = Str ''590px''
   \<and> style_left (updateLayout sample_host sample_boundary sample_plugin) = Str ''790px''
   \<and> alignment (setAlignment (Str ''topLeft'') sample_plugin) = Str ''topLeft''
   \<and> style_top (updateLayout sample_host sample_boundary (setAlignment (Str ''topLeft'') sample_plugin))
       = Str ''10px''
   \<and> style_left (updateLayout sample_host sample_boundary (setAlignment (Str ''topLeft'') sample_plugin))
       = Str ''10px''
   \<and> alignment (setAlignment (Str ''topRight'') sample_plugin) = Str ''topRight''
   \<and> style_top (updateLayout sample_host sample_boundary (setAlignment (Str ''topRight'') sample_plugin))
       = Str ''10px''
   \<and> style_left (updateLayout sample_host sample_boundary (setAlignment (Str ''topRight'') sample_plugin))
       = Str ''790px''
   \<and> alignment (setAlignment (Str ''bottomLeft'') sample_plugin) = Str ''bottomLeft''
   \<and> style_top (updateLayout sample_host sample_boundary (setAlignment (Str ''bottomLeft'') sample_plugin))
       = Str ''590px''
   \<and> style_left (updateLayout sample_host sample_boundary (setAlignment (Str ''bottomLeft'') sample_plugin))
       = Str ''10px''"
proof -
  have fields: "size_field sample_plugin = Num 200" "leftMargin sample_plugin = Num 10"
    "topMargin sample_plugin = Num 10" "needUpdateLayout sample_plugin"
    "alignment sample_plugin = Str ''bottomRight''"
    by (simp_all add: sample_plugin_eq)
  have frame: "size_field (setAlignment a sample_plugin) = Num 200"
    "leftMargin (setAlignment a sample_plugin) = Num 10"
    "topMargin (setAlignment a sample_plugin) = Num 10"
    "rightMargin (setAlignment a sample_plugin) = rightMargin sample_plugin"
    "bottomMargin (setAlignment a sample_plugin) = bottomMargin sample_plugin" for a
    by (simp_all add: sample_plugin_eq setter_defs Let_def)
  have moved: "layout_top_at_bottom sample_host sample_boundary (setAlignment a sample_plugin)
      = Str ''590px''"
    "layout_left_at_right sample_host sample_boundary (setAlignment a sample_plugin)
      = Str ''790px''" for a
    using sample_layout by (simp_all add: layout_top_at_bottom_def layout_left_at_right_def frame fields)
  have al: "alignment (setAlignment (Str ''topLeft'') sample_plugin) = Str ''topLeft''"
    "alignment (setAlignment (Str ''topRight'') sample_plugin) = Str ''topRight''"
    "alignment (setAlignment (Str ''bottomLeft'') sample_plugin) = Str ''bottomLeft''"
    by (simp_all add: setter_defs Let_def)
  show ?thesis
    using C6_layout_on_tick [of sample_plugin sample_host sample_boundary Undefined sample_boundary]
      C6_layout_on_tick [of "setAlignment (Str ''topLeft'') sample_plugin" sample_host
        sample_boundary Undefined sample_boundary]
      C6_layout_on_tick [of "setAlignment (Str ''topRight'') sample_plugin" sample_host
        sample_boundary Undefined sample_boundary]
      C6_layout_on_tick [of "setAlignment (Str ''bottomLeft'') sample_plugin" sample_host
        sample_boundary Undefined sample_boundary]
    by (simp add: fields frame moved al sample_layout sample_px onSceneTick_def updateLayout_flag)
qed

section \<open>Properties of the camera synchronisation\<close>

lemma sample_eyeLookVec:
  "mulVec3Scalar sample_host (normalizeVec3 sample_host
      (subVec3 sample_host (eye sample_pose) (look sample_pose))) 5 = (0, 0, 5)"
  by (simp add: sample_host_def sample_pose_def)

lemma sample_matrix:
  "rotationMat4c sample_host (- (90 * DEGTORAD sample_host)) 1 0 0
     = [1, 0, 0, 0, 0, 0, - 1, 0, 0, 1, 0, 0, 0, 0, 0, 1]"
  by (simp add: sample_host_sel sample_rotation_def)

lemma sample_turn:
  "transformVec3 sample_host [1, 0, 0, 0, 0, 0, - 1, 0, 0, 1, 0, 0, 0, 0, 0, 1] (0, 0, 5) = (0, 5, 0)"
  "transformPoint3 sample_host [1, 0, 0, 0, 0, 0, - 1, 0, 0, 1, 0, 0, 0, 0, 0, 1] (0, 1, 0) = (0, 0, - 1)"
  by (simp_all add: sample_host_sel sample_transform_def)

text \<open>
  C1: for every pose of the main camera (those with eye distinct from look among them),
  \<open>_synchCamera\<close> sets the NavCube camera's look to [0,0,0]; when the Z-up flag is false
  it sets the eye to 5 times the normalised vector eye - look and the up to the main
  camera's up; when the flag is true, both are transformed by the rotation of -90 degrees
  about the X axis before they are assigned.
\<close>

theorem C1_synchCamera_pose:
  "look (navCubeCamera (synchCamera h cam p)) = (0, 0, 0)
   \<and> (\<not> zUp p \<longrightarrow>
        eye (navCubeCamera (synchCamera h cam p))
          = mulVec3Scalar h (normalizeVec3 h (subVec3 h (eye cam) (look cam))) 5
        \<and> up (navCubeCamera (synchCamera h cam p)) = up cam)
   \<and> (zUp p \<longrightarrow>
        eye (navCubeCamera (synchCamera h cam p))
          = transformVec3 h (rotationMat4c h (- 90 * DEGTORAD h) 1 0 0)
              (mulVec3Scalar h (normalizeVec3 h (subVec3 h (eye cam) (look cam))) 5)
        \<and> up (navCubeCamera (synchCamera h cam p))
          = transformPoint3 h (rotationMat4c h (- 90 * DEGTORAD h) 1 0 0) (up cam))"
  by (simp add: synchCamera_def Let_def)

theorem C1_synchCamera_pose_witness:
  "eye sample_pose \<noteq> look sample_pose
   \<and> \<not> zUp sample_plugin
   \<and> look (navCubeCamera (synchCamera sample_host sample_pose sample_plugin)) = (0, 0, 0)
   \<and> eye (navCubeCamera (synchCamera sample_host sample_pose sample_plugin)) = (0, 0, 5)
   \<and> up (navCubeCamera (synchCamera sample_host sample_pose sample_plugin)) = (0, 1, 0)
   \<and> zUp (sample_plugin\<lparr>zUp := True\<rparr>)
   \<and> look (navCubeCamera (synchCamera sample_host sample_pose (sample_plugin\<lparr>zUp := True\<rparr>))) = (0, 0, 0)
   \<and> eye (navCubeCamera (synchCamera sample_host sample_pose (sample_plugin\<lparr>zUp := True\<rparr>))) = (0, 5, 0)
   \<and> up (navCubeCamera (synchCamera sample_host sample_pose (sample_plugin\<lparr>zUp := True\<rparr>))) = (0, 0, - 1)"
proof -
  have z: "\<not> zUp sample_plugin" by (simp add: sample_plugin_eq)
  have u: "up sample_pose = (0, 1, 0)" "eye sample_pose \<noteq> look sample_pose"
    by (simp_all add: sample_pose_def)
  show ?thesis
    using C1_synchCamera_pose [of sample_host sample_pose sample_plugin]
      C1_synchCamera_pose [of sample_host sample_pose "sample_plugin\<lparr>zUp := True\<rparr>"]
    by (simp add: z u sample_eyeLookVec sample_matrix sample_turn)
qed

section \<open>Properties of the mouse handlers\<close>

lemma flyTo_params:
  "fp_look (params (flyTo h p box dir upv)) = getAABB3Center h box"
  "fp_eye (params (flyTo h p box dir upv))
     = (fst (getAABB3Center h box) - flight_distance h box * fst dir,
        fst (snd (getAABB3Center h box)) - flight_distance h box * fst (snd dir),
        snd (snd (getAABB3Center h box)) - flight_distance h box * snd (snd dir))"
  "fp_up (params (flyTo h p box dir upv)) = (case upv of Some u \<Rightarrow> u | None \<Rightarrow> (0, 1, 0))"
  "fp_orthoScale (params (flyTo h p box dir upv)) = 1.3 * getAABB3Diag h box"
  "fp_fitFOV (params (flyTo h p box dir upv)) = cameraFitFOV p"
  by (simp_all add: flyTo_def flight_distance_def Let_def)

lemma flyTo_kind:
  "is_FlyTo (flyTo h p box dir upv) = truthy (cameraFly p)"
  "fp_duration (params (flyTo h p box dir upv))
     = (if truthy (cameraFly p) then Some (cameraFlyDuration p) else None)"
  by (simp_all add: flyTo_def Let_def)

lemma onMouseUp_select:
  "ev_which e = 1 \<Longrightarrow> downX u \<noteq> None \<Longrightarrow> \<not> moved_away e (downX u) (downY u) \<Longrightarrow> 0 \<le> a \<Longrightarrow>
   getAreaDir h a = Some dir \<Longrightarrow>
   flights (onMouseUp h p box e (HitUV (Some a)) u) = flights u @ [flyTo h p box dir (getAreaUp h a)]"
  by (simp add: onMouseUp_def ui_defs Let_def)

text \<open>
  C5: when an area of the cube is selected (a left-button mouse-up on it, close to where
  the button went down), the camera move has look = the centre of the scene's bounding
  box, eye = centre - dist * dir componentwise with dist = |diag / tan(55/2)|, up = the
  area's up vector, or [0,1,0] when it has none, and orthoScale = 1.3 * diag; the move is
  a \<open>cameraFlight.flyTo\<close> with duration = the stored cameraFlyDuration and fitFOV = the
  stored cameraFitFOV if and only if the stored cameraFly is true (for a value that is
  not a boolean: truthy), and else a \<open>cameraFlight.jumpTo\<close> with the same fitFOV and no
  duration.
\<close>

theorem C5_flyTo_target:
  "fp_look (params (flyTo h p box dir upv)) = getAABB3Center h box
   \<and> fp_eye (params (flyTo h p box dir upv))
       = (fst (getAABB3Center h box) - flight_distance h box * fst dir,
          fst (snd (getAABB3Center h box)) - flight_distance h box * fst (snd dir),
          snd (snd (getAABB3Center h box)) - flight_distance h box * snd (snd dir))
   \<and> fp_up (params (flyTo h p box dir (Some u0))) = u0
   \<and> fp_up (params (flyTo h p box dir None)) = (0, 1, 0)
   \<and> fp_orthoScale (params (flyTo h p box dir upv)) = 1.3 * getAABB3Diag h box
   \<and> fp_fitFOV (params (flyTo h p box dir upv)) = cameraFitFOV p
   \<and> is_FlyTo (flyTo h p box dir upv) = truthy (cameraFly p)
   \<and> (cameraFly p = Bool b \<longrightarrow> is_FlyTo (flyTo h p box dir upv) = b)
   \<and> (truthy (cameraFly p) \<longrightarrow>
        fp_duration (params (flyTo h p box dir upv)) = Some (cameraFlyDuration p))
   \<and> (\<not> truthy (cameraFly p) \<longrightarrow> fp_duration (params (flyTo h p box dir upv)) = None)
   \<and> (ev_which e = 1 \<and> downX u \<noteq> None \<and> \<not> moved_away e (downX u) (downY u) \<and> 0 \<le> a
        \<and> getAreaDir h a = Some dir \<longrightarrow>
        flights (onMouseUp h p box e (HitUV (Some a)) u)
          = flights u @ [flyTo h p box dir (getAreaUp h a)])"
  by (simp add: flyTo_params flyTo_kind onMouseUp_select)

theorem C5_flyTo_target_witness:
  "truthy (cameraFly sample_plugin)
   \<and> is_FlyTo (flyTo sample_host sample_plugin sample_box (- 1, 0, 0) None)
   \<and> fp_duration (params (flyTo sample_host sample_plugin sample_box (- 1, 0, 0) None)) = Some (Num 0.5)
   \<and> fp_fitFOV (params (flyTo sample_host sample_plugin sample_box (- 1, 0, 0) None)) = Num 45
   \<and> fp_look (params (flyTo sample_host sample_plugin sample_box (- 1, 0, 0) None)) = (1, 2, 3)
   \<and> fp_up (params (flyTo sample_host sample_plugin sample_box (- 1, 0, 0) None)) = (0, 1, 0)
   \<and> \<not> truthy (cameraFly (setCameraFly (Bool False) sample_plugin))
   \<and> \<not> is_FlyTo (flyTo sample_host (setCameraFly (Bool False) sample_plugin) sample_box (- 1, 0, 0) None)
   \<and> fp_duration (params (flyTo sample_host (setCameraFly (Bool False) sample_plugin) sample_box
         (- 1, 0, 0) None)) = None
   \<and> ev_which (sample_event 102 99) = 1 \<and> downX pressed \<noteq> None
   \<and> \<not> moved_away (sample_event 102 99) (downX pressed) (downY pressed)
   \<and> getAreaDir sample_host 2 = Some (- 1, 0, 0)
   \<and> flights (onMouseUp sample_host sample_plugin sample_box (sample_event 102 99) (HitUV (Some 2)) pressed)
       = [flyTo sample_host sample_plugin sample_box (- 1, 0, 0) None]"
proof -
  have c: "getAABB3Center sample_host sample_box = (1, 2, 3)"
    by (simp add: sample_host_def sample_box_def)
  have f: "cameraFly (setCameraFly (Bool False) sample_plugin) = Bool False"
    "cameraFitFOV (setCameraFly (Bool False) sample_plugin) = Num 45"
    by (simp_all add: setter_defs sample_plugin_eq)
  have w: "ev_which (sample_event 102 99) = 1" by (simp add: sample_event_def)
  show ?thesis
    using C5_flyTo_target [of sample_host sample_plugin sample_box "(- 1, 0, 0)" None "(0, 1, 0)"
        True "sample_event 102 99" pressed 2]
      C5_flyTo_target [of sample_host "setCameraFly (Bool False) sample_plugin" sample_box
        "(- 1, 0, 0)" None "(0, 1, 0)" False "sample_event 102 99" pressed 2]
    by (simp add: c f w sample_plugin_fly sample_dirs sample_moved pressed_fields)
qed

lemma onMouseUp_other_button: "ev_which e \<noteq> 1 \<Longrightarrow> onMouseUp h p box e ht u = u"
  by (simp add: onMouseUp_def)

lemma onMouseUp_flight_only_near:
  assumes "flights (onMouseUp h p box e ht u) \<noteq> flights u"
  shows "ev_which e = 1 \<and> downX u \<noteq> None \<and> \<not> moved_away e (downX u) (downY u)
         \<and> (\<exists>a dir. ht = HitUV (Some a) \<and> 0 \<le> a \<and> getAreaDir h a = Some dir)"
  using assms
  by (auto simp: onMouseUp_def ui_defs Let_def split: if_splits hit.splits option.splits)

lemma not_moved_away_iff:
  "downX u = Some dx \<Longrightarrow> downY u = Some dy \<Longrightarrow>
   (\<not> moved_away e (downX u) (downY u))
     = (dx - 3 \<le> ev_x e \<and> ev_x e \<le> dx + 3 \<and> dy - 3 \<le> ev_y e \<and> ev_y e \<le> dy + 3)"
  by (auto simp: moved_away_def null_as_number_def)

lemma onMouseUp_moved_away:
  "ev_which e = 1 \<Longrightarrow> downX u \<noteq> None \<Longrightarrow> moved_away e (downX u) (downY u) \<Longrightarrow> 0 \<le> a \<Longrightarrow>
   flights (onMouseUp h p box e (HitUV (Some a)) u) = flights u
   \<and> orbits (onMouseUp h p box e (HitUV (Some a)) u) = orbits u
   \<and> a \<in> highlighted (onMouseUp h p box e (HitUV (Some a)) u)
   \<and> a \<in> painted (onMouseUp h p box e (HitUV (Some a)) u)
   \<and> lastAreaId (onMouseUp h p box e (HitUV (Some a)) u) = a"
  by (auto simp: onMouseUp_def ui_defs Let_def)

text \<open>
  C10: a mouse-up makes a call on the camera's flight controller only when it is a
  left-button mouse-up and the pointer is at most 3 pixels away, along each axis, from
  where the button went down (\<open>e.x\<close> in [downX - 3, downX + 3] and \<open>e.y\<close> in
  [downY - 3, downY + 3]); a left-button mouse-up on an area farther away than that still
  highlights the area and records it, and makes no call on the camera; a mouse-up with
  another button changes no state at all.
\<close>

theorem C10_mouseup_click_tolerance:
  "(ev_which e \<noteq> 1 \<longrightarrow> onMouseUp h p box e ht u = u)
   \<and> (flights (onMouseUp h p box e ht u) \<noteq> flights u \<and> downX u = Some dx \<and> downY u = Some dy \<longrightarrow>
        dx - 3 \<le> ev_x e \<and> ev_x e \<le> dx + 3 \<and> dy - 3 \<le> ev_y e \<and> ev_y e \<le> dy + 3)
   \<and> (flights (onMouseUp h p box e ht u) \<noteq> flights u \<longrightarrow>
        ev_which e = 1 \<and> downX u \<noteq> None \<and> \<not> moved_away e (downX u) (downY u))
   \<and> (ev_which e = 1 \<and> downX u \<noteq> None \<and> moved_away e (downX u) (downY u) \<and> 0 \<le> a \<longrightarrow>
        flights (onMouseUp h p box e (HitUV (Some a)) u) = flights u
        \<and> orbits (onMouseUp h p box e (HitUV (Some a)) u) = orbits u
        \<and> a \<in> highlighted (onMouseUp h p box e (HitUV (Some a)) u)
        \<and> lastAreaId (onMouseUp h p box e (HitUV (Some a)) u) = a)"
  using onMouseUp_flight_only_near [of h p box e ht u] not_moved_away_iff [of u dx dy e]
    onMouseUp_moved_away [of e u a h p box] onMouseUp_other_button [of e h p box ht u]
  by blast

theorem C10_mouseup_click_tolerance_witness:
  "ev_which ((sample_event 100 100)\<lparr>ev_which := 3\<rparr>) \<noteq> 1
   \<and> onMouseUp sample_host sample_plugin sample_box ((sample_event 100 100)\<lparr>ev_which := 3\<rparr>)
        (HitUV (Some 2)) pressed = pressed
   \<and> flights (onMouseUp sample_host sample_plugin sample_box (sample_event 102 99)
        (HitUV (Some 2)) pressed) \<noteq> flights pressed
   \<and> downX pressed = Some 100 \<and> downY pressed = Some 100
   \<and> 100 - 3 \<le> ev_x (sample_event 102 99) \<and> ev_x (sample_event 102 99) \<le> 100 + 3
   \<and> 100 - 3 \<le> ev_y (sample_event 102 99) \<and> ev_y (sample_event 102 99) \<le> 100 + 3
   \<and> ev_which (sample_event 110 100) = 1
   \<and> moved_away (sample_event 110 100) (downX pressed) (downY pressed)
   \<and> flights (onMouseUp sample_host sample_plugin sample_box (sample_event 110 100)
        (HitUV (Some 2)) pressed) = flights pressed
   \<and> 2 \<in> highlighted (onMouseUp sample_host sample_plugin sample_box (sample_event 110 100)
        (HitUV (Some 2)) pressed)
   \<and> lastAreaId (onMouseUp sample_host sample_plugin sample_box (sample_event 110 100)
        (HitUV (Some 2)) pressed) = 2"
proof -
  have ev: "ev_which ((sample_event 100 100)\<lparr>ev_which := 3\<rparr>) \<noteq> 1"
    "ev_which (sample_event 102 99) = 1"
    "ev_which (sample_event 110 100) = 1"
    by (simp_all add: sample_event_def)
  have far: "moved_away (sample_event 110 100) (downX pressed) (downY pressed)"
    by (simp add: pressed_fields sample_moved)
  have near: "flights (onMouseUp sample_host sample_plugin sample_box (sample_event 102 99)
        (HitUV (Some 2)) pressed) \<noteq> flights pressed"
    using onMouseUp_select [of "sample_event 102 99" pressed 2 sample_host "(- 1, 0, 0)"
        sample_plugin sample_box]
    by (simp add: ev pressed_fields sample_moved sample_dirs)
  have other: "onMouseUp sample_host sample_plugin sample_box
      ((sample_event 100 100)\<lparr>ev_which := 3\<rparr>) (HitUV (Some 2)) pressed = pressed"
    using C10_mouseup_click_tolerance [of "(sample_event 100 100)\<lparr>ev_which := 3\<rparr>" sample_host
        sample_plugin sample_box "HitUV (Some 2)" pressed 100 100 2] ev(1)
    by blast
  have bounds: "100 - 3 \<le> ev_x (sample_event 102 99) \<and> ev_x (sample_event 102 99) \<le> 100 + 3
     \<and> 100 - 3 \<le> ev_y (sample_event 102 99) \<and> ev_y (sample_event 102 99) \<le> 100 + 3"
    using C10_mouseup_click_tolerance [of "sample_event 102 99" sample_host
        sample_plugin sample_box "HitUV (Some 2)" pressed 100 100 2] near pressed_fields(1,2)
    by blast
  have held: "downX pressed \<noteq> None" by (simp add: pressed_fields)
  have away: "flights (onMouseUp sample_host sample_plugin sample_box (sample_event 110 100)
        (HitUV (Some 2)) pressed) = flights pressed
     \<and> 2 \<in> highlighted (onMouseUp sample_host sample_plugin sample_box (sample_event 110 100)
        (HitUV (Some 2)) pressed)
     \<and> lastAreaId (onMouseUp sample_host sample_plugin sample_box (sample_event 110 100)
        (HitUV (Some 2)) pressed) = 2"
    using C10_mouseup_click_tolerance [of "sample_event 110 100" sample_host sample_plugin
        sample_box "HitUV (Some 2)" pressed 100 100 2] ev(3) far held
    by simp
  from ev near other bounds away far pressed_fields(1,2) show ?thesis
    by blast
qed

lemma inv_initial: "highlight_inv initial_ui"
  by (simp add: highlight_inv_def initial_ui_def)

lemma inv_onMouseEnter: "highlight_inv u \<Longrightarrow> highlight_inv (onMouseEnter u)"
  by (simp add: highlight_inv_def onMouseEnter_def)

lemma inv_onMouseLeave: "highlight_inv u \<Longrightarrow> highlight_inv (onMouseLeave u)"
  by (simp add: highlight_inv_def onMouseLeave_def)

lemma inv_onMouseDown: "highlight_inv u \<Longrightarrow> highlight_inv (onMouseDown e ht u)"
  by (simp add: highlight_inv_def onMouseDown_def)

lemma inv_onMouseUp: "highlight_inv u \<Longrightarrow> highlight_inv (onMouseUp h p box e ht u)"
  by (auto simp: highlight_inv_def onMouseUp_def ui_defs Let_def split: hit.splits option.splits)

lemma inv_onFlightDone: "highlight_inv u \<Longrightarrow> highlight_inv (onFlightDone ht u)"
  by (auto simp: highlight_inv_def onFlightDone_def ui_defs Let_def split: hit.splits option.splits)

lemma inv_onMouseMove: "highlight_inv u \<Longrightarrow> highlight_inv (onMouseMove e ht u)"
  by (auto simp: highlight_inv_def onMouseMove_def actionMove_def ui_defs Let_def
      split: hit.splits option.splits)

lemma inv_handle_event: "highlight_inv u \<Longrightarrow> highlight_inv (handle_event h ev u)"
  by (cases ev) (simp_all add: inv_onMouseEnter inv_onMouseLeave inv_onMouseDown inv_onMouseUp
      inv_onMouseMove inv_onFlightDone)

lemma inv_run: "highlight_inv u \<Longrightarrow> highlight_inv (run h evs u)"
  by (induction evs arbitrary: u) (simp_all add: inv_handle_event)

lemma sample_moves_run:
  "run sample_host sample_moves initial_ui
     = initial_ui\<lparr>over := True, cursor := ''pointer'', lastAreaId := 4, highlighted := {4},
         painted := {4}\<rparr>"
  unfolding sample_moves_def initial_ui_def
  by (simp add: handler_defs sample_event_def Let_def cong: by_value)

lemma sample_moves_away:
  "run sample_host (sample_moves @ [MouseMove (sample_event 300 300) NoHit]) initial_ui
     = initial_ui\<lparr>over := True, cursor := ''default''\<rparr>"
  unfolding sample_moves_def initial_ui_def
  by (simp add: handler_defs sample_event_def Let_def cong: by_value)

text \<open>
  C9: after any sequence of runs of the mouse handlers and of the flight callback,
  starting from the state the constructor sets up, at most one area of the cube is
  highlighted, and \<open>lastAreaId\<close> is the id of that area, or -1 when no area is
  highlighted; every handler keeps this, since it takes the highlight off the area in
  \<open>lastAreaId\<close> (repainting, and resetting \<open>lastAreaId\<close> to -1) before it highlights
  another area and records its id.
\<close>

theorem C9_single_highlight:
  "highlight_inv (run h evs initial_ui)
   \<and> card (highlighted (run h evs initial_ui)) \<le> 1
   \<and> (0 \<le> lastAreaId (run h evs initial_ui) \<longrightarrow>
        highlighted (run h evs initial_ui) = {lastAreaId (run h evs initial_ui)})
   \<and> (lastAreaId (run h evs initial_ui) < 0 \<longrightarrow>
        lastAreaId (run h evs initial_ui) = - 1 \<and> highlighted (run h evs initial_ui) = {})
   \<and> (highlight_inv u \<longrightarrow> highlight_inv (handle_event h ev u))"
proof -
  have inv: "highlight_inv (run h evs initial_ui)"
    by (rule inv_run [OF inv_initial])
  have one: "card (highlighted (run h evs initial_ui)) \<le> 1"
    using inv by (simp add: highlight_inv_def split: if_splits)
  have pos: "0 \<le> lastAreaId (run h evs initial_ui) \<longrightarrow>
        highlighted (run h evs initial_ui) = {lastAreaId (run h evs initial_ui)}"
    using inv by (simp add: highlight_inv_def split: if_splits)
  have neg: "lastAreaId (run h evs initial_ui) < 0 \<longrightarrow>
        lastAreaId (run h evs initial_ui) = - 1 \<and> highlighted (run h evs initial_ui) = {}"
    using inv by (simp add: highlight_inv_def split: if_splits)
  have step: "highlight_inv u \<longrightarrow> highlight_inv (handle_event h ev u)"
    by (simp add: inv_handle_event)
  from inv one pos neg step show ?thesis by blast
qed

theorem C9_single_highlight_witness:
  "0 \<le> lastAreaId (run sample_host sample_moves initial_ui)
   \<and> highlighted (run sample_host sample_moves initial_ui) = {4}
   \<and> lastAreaId (run sample_host (sample_moves @ [MouseMove (sample_event 300 300) NoHit]) initial_ui) < 0
   \<and> highlighted (run sample_host (sample_moves @ [MouseMove (sample_event 300 300) NoHit]) initial_ui) = {}
   \<and> highlight_inv initial_ui
   \<and> highlight_inv (handle_event sample_host (MouseMove (sample_event 50 50) (HitUV (Some 3))) initial_ui)"
proof -
  have init: "lastAreaId initial_ui = - 1"
    by (simp add: initial_ui_def)
  have on: "lastAreaId (run sample_host sample_moves initial_ui) = 4"
    by (simp add: sample_moves_run)
  have off: "lastAreaId (run sample_host (sample_moves @ [MouseMove (sample_event 300 300) NoHit])
      initial_ui) = - 1"
    by (simp add: sample_moves_away init)
  have shown: "highlighted (run sample_host sample_moves initial_ui) = {4}"
    using C9_single_highlight [of sample_host sample_moves initial_ui MouseEnter] on by simp
  have hidden: "highlighted (run sample_host (sample_moves @ [MouseMove (sample_event 300 300) NoHit])
      initial_ui) = {}"
    using C9_single_highlight [of sample_host "sample_moves @ [MouseMove (sample_event 300 300) NoHit]"
        initial_ui MouseEnter] off by simp
  have step: "highlight_inv (handle_event sample_host
      (MouseMove (sample_event 50 50) (HitUV (Some 3))) initial_ui)"
    using C9_single_highlight [of sample_host "[]" initial_ui
        "MouseMove (sample_event 50 50) (HitUV (Some 3))"]
      inv_initial by blast
  from on off shown hidden step inv_initial show ?thesis by simp
qed

section \<open>Properties of the teardown\<close>

text \<open>
  C8 fails on the code. On a viewer with no subscriptions, the constructor followed by
  \<open>destroy\<close> removes the five DOM listeners and six of the seven subscriptions the
  constructor made; the second "worldAxis" subscription on the main camera, whose handle
  the constructor does not keep, is still there.
\<close>

theorem C8_destroy_leaves_worldAxis_subscription:
  "subs (camera_events (constructor_wiring fresh_wiring))
     = [(0, ''matrix'', Cb_synchCamera), (1, ''worldAxis'', Cb_synchCamera),
        (2, ''projection'', Cb_cameraProjection), (3, ''worldAxis'', Cb_worldAxis)]
   \<and> subs (camera_events (destroy (constructor_wiring fresh_wiring)))
     = [(3, ''worldAxis'', Cb_worldAxis)]
   \<and> subs (camera_events fresh_wiring) = []
   \<and> subs (perspective_events (destroy (constructor_wiring fresh_wiring))) = []
   \<and> subs (scene_events (destroy (constructor_wiring fresh_wiring))) = []
   \<and> subs (canvas_events (destroy (constructor_wiring fresh_wiring))) = []
   \<and> navCubeCanvas_listeners (destroy (constructor_wiring fresh_wiring)) = []
   \<and> document_listeners (destroy (constructor_wiring fresh_wiring)) = []
   \<and> base_destroyed (destroy (constructor_wiring fresh_wiring))"
  by (simp add: destroy_def constructor_wiring_def fresh_wiring_def comp_on_def comp_off_def
      off_field_def addEventListener_def removeEventListener_def Let_def cong: by_value)

end
